theory Spec2Isabelle
  imports Complex_Main "HOL-Library.Word"
begin

section \<open>The audio visualizer hook (src/hooks/useAudioVisualizer.ts)\<close>

text \<open>
  The hook keeps four references (audio context, analyser, source node, pending animation
  frame) and two pieces of component state (the frequency buffer and the initialized flag).
  It runs against a host: the audio graph of the platform, the console, the frame
  scheduler, and the connection manager of utils/audioContextManager. The host is an
  explicit \<open>world\<close> that every operation takes and returns; exceptions are values.
\<close>

subsection \<open>Host data\<close>

type_synonym node = nat
type_synonym element = nat
type_synonym callback = nat
type_synonym uint8 = "8 word"

datatype exn = IndexSizeError | InvalidAccessError | InvalidStateError

record audio_context =
  sampleRate :: real
  destination :: node

record analyser_node =
  node_id :: node
  fftSize :: nat
  smoothingTimeConstant :: real
  minDecibels :: real
  maxDecibels :: real

record connection =
  audioContext :: audio_context
  sourceNode :: node
  filters :: "node list option"
  analyser :: "analyser_node option"
  refCount :: nat

text \<open>
  What the platform decides and the hook cannot: whether a node hookup raises, whether the
  manager's calls raise, the sample rate of a new context, and the bytes an analyser node
  currently holds (per node and bin).
\<close>

record platform =
  connect_error :: "node \<Rightarrow> node \<Rightarrow> exn option"
  acquire_error :: "exn option"
  ensure_error :: "exn option"
  host_sampleRate :: real
  byteFrequency :: "node \<Rightarrow> nat \<Rightarrow> uint8"
  byteTimeDomain :: "node \<Rightarrow> nat \<Rightarrow> uint8"

record world =
  registry :: "element \<Rightarrow> connection option"
  bound_elsewhere :: "element \<Rightarrow> bool"
  edges :: "(node \<times> node) set"
  next_node :: node
  console :: "(string \<times> exn) list"
  pending :: "(nat \<times> callback) list"
  next_handle :: nat
  invoked :: "(callback \<times> uint8 list) list"

subsection \<open>Hook data\<close>

record options =
  opt_fftSize :: "real option"
  opt_smoothingTimeConstant :: "real option"
  opt_minDecibels :: "real option"
  opt_maxDecibels :: "real option"

record visualizer =
  audioContextRef :: "audio_context option"
  analyserRef :: "analyser_node option"
  sourceRef :: "node option"
  animationFrameRef :: "nat option"
  frequencyData :: "uint8 list"
  isInitialized :: bool

text \<open>
  The destructuring defaults of lines 23 to 28. The options are numbers of the language,
  here the finite ones (reals); fftSize too is any number until the analyser's attribute
  converts it. The component state is read as it currently is: the callbacks are re-created
  whenever a value they close over changes.
\<close>

definition fftSize_of :: "options \<Rightarrow> real" where
  "fftSize_of opts = (case opt_fftSize opts of None \<Rightarrow> 128 | Some n \<Rightarrow> n)"

definition smoothingTimeConstant_of :: "options \<Rightarrow> real" where
  "smoothingTimeConstant_of opts =
     (case opt_smoothingTimeConstant opts of None \<Rightarrow> 0.8 | Some x \<Rightarrow> x)"

definition minDecibels_of :: "options \<Rightarrow> real" where
  "minDecibels_of opts = (case opt_minDecibels opts of None \<Rightarrow> - 90 | Some x \<Rightarrow> x)"

definition maxDecibels_of :: "options \<Rightarrow> real" where
  "maxDecibels_of opts = (case opt_maxDecibels opts of None \<Rightarrow> - 10 | Some x \<Rightarrow> x)"

definition default_options :: options where
  "default_options =
     \<lparr>opt_fftSize = None, opt_smoothingTimeConstant = None,
      opt_minDecibels = None, opt_maxDecibels = None\<rparr>"

text \<open>The state of a freshly mounted hook (lines 30 to 38).\<close>

definition initial_visualizer :: visualizer where
  "initial_visualizer =
     \<lparr>audioContextRef = None, analyserRef = None, sourceRef = None,
      animationFrameRef = None, frequencyData = [], isInitialized = False\<rparr>"

subsection \<open>The platform's analyser node\<close>

text \<open>
  The analyser node belongs to the platform. A new node carries the platform defaults; its
  attributes accept only the values of the data model (a power of two from 32 to 32768,
  a smoothing constant from 0 to 1, a minimum below the maximum) and raise IndexSizeError
  otherwise. fftSize is an unsigned long attribute: the number assigned to it is first
  converted (its fraction dropped, the result taken modulo 2 ^ 32), then checked.
  minDecibels and maxDecibels are each checked against the other's current value, so the
  order of the two assignments matters. frequencyBinCount is half the fftSize.
\<close>

definition consoleError :: "string \<Rightarrow> exn \<Rightarrow> world \<Rightarrow> world" where
  "consoleError msg e w = w\<lparr>console := console w @ [(msg, e)]\<rparr>"

definition createAnalyser :: "audio_context \<Rightarrow> world \<Rightarrow> analyser_node \<times> world" where
  "createAnalyser ctx w =
     (\<lparr>node_id = next_node w, fftSize = 2048, smoothingTimeConstant = 0.8,
       minDecibels = - 100, maxDecibels = - 30\<rparr>,
      w\<lparr>next_node := Suc (next_node w)\<rparr>)"

definition valid_fftSize :: "nat \<Rightarrow> bool" where
  "valid_fftSize n \<longleftrightarrow>
     n \<in> set [32, 64, 128, 256, 512, 1024, 2048, 4096, 8192, 16384, 32768]"

definition to_unsigned_long :: "real \<Rightarrow> nat" where
  "to_unsigned_long x = nat ((if 0 \<le> x then \<lfloor>x\<rfloor> else \<lceil>x\<rceil>) mod 2 ^ 32)"

definition set_fftSize :: "real \<Rightarrow> analyser_node \<Rightarrow> exn + analyser_node" where
  "set_fftSize x a =
     (let n = to_unsigned_long x
      in if valid_fftSize n then Inr (a\<lparr>fftSize := n\<rparr>) else Inl IndexSizeError)"

definition set_smoothingTimeConstant :: "real \<Rightarrow> analyser_node \<Rightarrow> exn + analyser_node" where
  "set_smoothingTimeConstant x a =
     (if 0 \<le> x \<and> x \<le> 1 then Inr (a\<lparr>smoothingTimeConstant := x\<rparr>) else Inl IndexSizeError)"

definition set_minDecibels :: "real \<Rightarrow> analyser_node \<Rightarrow> exn + analyser_node" where
  "set_minDecibels x a =
     (if x < maxDecibels a then Inr (a\<lparr>minDecibels := x\<rparr>) else Inl IndexSizeError)"

definition set_maxDecibels :: "real \<Rightarrow> analyser_node \<Rightarrow> exn + analyser_node" where
  "set_maxDecibels x a =
     (if minDecibels a < x then Inr (a\<lparr>maxDecibels := x\<rparr>) else Inl IndexSizeError)"

definition frequencyBinCount :: "analyser_node \<Rightarrow> nat" where
  "frequencyBinCount a = fftSize a div 2"

text \<open>
  The sampling calls overwrite the leading entries of the array they are given (up to
  frequencyBinCount of them for the spectrum, up to fftSize for the waveform) and leave
  the rest; the array keeps its length.
\<close>

definition getByteFrequencyData :: "platform \<Rightarrow> analyser_node \<Rightarrow> uint8 list \<Rightarrow> uint8 list" where
  "getByteFrequencyData h a arr =
     map (\<lambda>i. if i < frequencyBinCount a then byteFrequency h (node_id a) i else arr ! i)
       [0..<length arr]"

definition getByteTimeDomainData :: "platform \<Rightarrow> analyser_node \<Rightarrow> uint8 list \<Rightarrow> uint8 list" where
  "getByteTimeDomainData h a arr =
     map (\<lambda>i. if i < fftSize a then byteTimeDomain h (node_id a) i else arr ! i)
       [0..<length arr]"

text \<open>AudioNode.connect: an edge of the graph, or the exception the platform raises.\<close>

definition connect :: "platform \<Rightarrow> node \<Rightarrow> node \<Rightarrow> world \<Rightarrow> exn option \<times> world" where
  "connect h src dst w =
     (case connect_error h src dst of
        Some e \<Rightarrow> (Some e, w)
      | None \<Rightarrow> (None, w\<lparr>edges := insert (src, dst) (edges w)\<rparr>))"

text \<open>requestAnimationFrame and cancelAnimationFrame of the frame scheduler.\<close>

definition requestAnimationFrame :: "callback \<Rightarrow> world \<Rightarrow> nat \<times> world" where
  "requestAnimationFrame cb w =
     (next_handle w,
      w\<lparr>pending := pending w @ [(next_handle w, cb)], next_handle := Suc (next_handle w)\<rparr>)"

definition cancelAnimationFrame :: "nat \<Rightarrow> world \<Rightarrow> world" where
  "cancelAnimationFrame handle w = w\<lparr>pending := filter (\<lambda>p. fst p \<noteq> handle) (pending w)\<rparr>"

subsection \<open>The connection manager (utils/audioContextManager)\<close>

text \<open>
  Modelled from the spec: getOrCreateAudioConnection, the registry's acquire of section 4.1;
  utils/audioContextManager is not among the sources. It returns the existing connection of
  the element with its reference count incremented, or constructs a new one (the underlying
  source node, an empty filter chain, no analyser yet), or reports the element as
  unavailable (no connection, nothing changed) when it is bound to a graph the registry
  does not own. Whether the call itself raises is the platform's \<open>acquire_error\<close>,
  since the hook calls it inside a try block.
\<close>

definition getOrCreateAudioConnection ::
  "platform \<Rightarrow> element \<Rightarrow> world \<Rightarrow> (exn + connection option) \<times> world" where
  "getOrCreateAudioConnection h el w =
     (case acquire_error h of
        Some e \<Rightarrow> (Inl e, w)
      | None \<Rightarrow>
         (case registry w el of
            Some c \<Rightarrow>
              (let c' = c\<lparr>refCount := Suc (refCount c)\<rparr>
               in (Inr (Some c'), w\<lparr>registry := (registry w)(el \<mapsto> c')\<rparr>))
          | None \<Rightarrow>
              if bound_elsewhere w el then (Inr None, w)
              else
                (let c = \<lparr>audioContext =
                            \<lparr>sampleRate = host_sampleRate h, destination = next_node w\<rparr>,
                          sourceNode = Suc (next_node w), filters = Some [],
                          analyser = None, refCount = 1\<rparr>
                 in (Inr (Some c),
                     w\<lparr>registry := (registry w)(el \<mapsto> c),
                       next_node := Suc (Suc (next_node w))\<rparr>))))"

text \<open>
  Modelled from the spec: ensureConnectionChain, the registry's ensureChainComplete of
  section 4.1. The filter-chain nodes are linked in series from the source into the
  destination; a pair that is already connected stays connected; a hookup that fails is
  caught and logged inside. Whether the call itself raises is the platform's
  \<open>ensure_error\<close>.
\<close>

fun chain_links :: "node list \<Rightarrow> (node \<times> node) list" where
  "chain_links (a # b # rest) = (a, b) # chain_links (b # rest)"
| "chain_links _ = []"

definition chain_nodes :: "connection \<Rightarrow> node list" where
  "chain_nodes c =
     sourceNode c # (case filters c of None \<Rightarrow> [] | Some fs \<Rightarrow> fs)
       @ [destination (audioContext c)]"

fun hookup :: "platform \<Rightarrow> (node \<times> node) list \<Rightarrow> world \<Rightarrow> world" where
  "hookup h [] w = w"
| "hookup h ((a, b) # ls) w =
     hookup h ls
       (case connect h a b w of
          (None, w') \<Rightarrow> w'
        | (Some e, w') \<Rightarrow> consoleError ''[audioContextManager] Error connecting chain:'' e w')"

definition ensureConnectionChain :: "platform \<Rightarrow> connection \<Rightarrow> world \<Rightarrow> exn option \<times> world" where
  "ensureConnectionChain h c w =
     (case ensure_error h of
        Some e \<Rightarrow> (Some e, w)
      | None \<Rightarrow> (None, hookup h (chain_links (chain_nodes c)) w))"

text \<open>
  Modelled from the spec: releaseAudioConnection, the registry's release of section 4.1.
  The reference count is decremented; at zero every node of the connection is disconnected
  and the registry entry removed.
\<close>

definition releaseAudioConnection :: "element \<Rightarrow> world \<Rightarrow> world" where
  "releaseAudioConnection el w =
     (case registry w el of
        None \<Rightarrow> w
      | Some c \<Rightarrow>
          if refCount c \<le> 1
          then w\<lparr>registry := (registry w)(el := None),
                 edges := {e \<in> edges w. fst e \<notin> set (chain_nodes c)}\<rparr>
          else w\<lparr>registry := (registry w)(el \<mapsto> c\<lparr>refCount := refCount c - 1\<rparr>)\<rparr>)"

subsection \<open>initialize (lines 41 to 111)\<close>

text \<open>
  Lines 57 to 63: the connection's shared analyser, created with fftSize 2048 and smoothing
  0.75 and stored on the connection when the connection has none.
\<close>

definition sharedAnalyser ::
  "element \<Rightarrow> connection \<Rightarrow> world \<Rightarrow> (exn + analyser_node \<times> connection) \<times> world" where
  "sharedAnalyser el c w =
     (case analyser c of
        Some a \<Rightarrow> (Inr (a, c), w)
      | None \<Rightarrow>
         (case createAnalyser (audioContext c) w of
            (a0, w1) \<Rightarrow>
              (case set_fftSize 2048 a0 of
                 Inl e \<Rightarrow> (Inl e, w1)
               | Inr a1 \<Rightarrow>
                  (case set_smoothingTimeConstant 0.75 a1 of
                     Inl e \<Rightarrow> (Inl e, w1)
                   | Inr a2 \<Rightarrow>
                      (let c' = c\<lparr>analyser := Some a2\<rparr>
                       in (Inr (a2, c'), w1\<lparr>registry := (registry w1)(el \<mapsto> c')\<rparr>))))))"

text \<open>Lines 66 to 70: the hook's own analyser, configured from the options.\<close>

definition customAnalyser ::
  "options \<Rightarrow> connection \<Rightarrow> world \<Rightarrow> (exn + analyser_node) \<times> world" where
  "customAnalyser opts c w =
     (case createAnalyser (audioContext c) w of
        (a0, w1) \<Rightarrow>
          (case set_fftSize (fftSize_of opts) a0 of
             Inl e \<Rightarrow> (Inl e, w1)
           | Inr a1 \<Rightarrow>
              (case set_smoothingTimeConstant (smoothingTimeConstant_of opts) a1 of
                 Inl e \<Rightarrow> (Inl e, w1)
               | Inr a2 \<Rightarrow>
                  (case set_minDecibels (minDecibels_of opts) a2 of
                     Inl e \<Rightarrow> (Inl e, w1)
                   | Inr a3 \<Rightarrow>
                      (case set_maxDecibels (maxDecibels_of opts) a3 of
                         Inl e \<Rightarrow> (Inl e, w1)
                       | Inr a4 \<Rightarrow> (Inr a4, w1))))))"

text \<open>
  Lines 76 to 88: the inner try block. The node the tap hangs off is the last filter when
  the connection has filters and the source node otherwise; a failing hookup is logged and
  swallowed.
\<close>

definition tap_input :: "connection \<Rightarrow> node" where
  "tap_input c =
     (case filters c of
        Some (f # fs) \<Rightarrow> last (f # fs)
      | _ \<Rightarrow> sourceNode c)"

definition connectCustom :: "platform \<Rightarrow> connection \<Rightarrow> analyser_node \<Rightarrow> world \<Rightarrow> world" where
  "connectCustom h c custom w =
     (case connect h (tap_input c) (node_id custom) w of
        (None, w') \<Rightarrow> w'
      | (Some e, w') \<Rightarrow>
          consoleError ''[useAudioVisualizer] Error connecting custom analyser:'' e w')"

text \<open>
  Lines 45 to 100, the body of the outer try block. The result is the exception that left
  the block, if any, with the references and the world as they were at that moment. The
  source's local \<open>analyser\<close> (the connection's shared analyser) is \<open>shared\<close> here.
\<close>

definition initialize_try ::
  "platform \<Rightarrow> element \<Rightarrow> options \<Rightarrow> visualizer \<times> world \<Rightarrow> exn option \<times> visualizer \<times> world" where
  "initialize_try h el opts st =
     (case st of (s, w) \<Rightarrow>
       (case getOrCreateAudioConnection h el w of
          (Inl e, w1) \<Rightarrow> (Some e, s, w1)
        | (Inr None, w1) \<Rightarrow> (None, s, w1)
        | (Inr (Some c0), w1) \<Rightarrow>
           (case sharedAnalyser el c0 w1 of
              (Inl e, w2) \<Rightarrow> (Some e, s, w2)
            | (Inr (shared, c), w2) \<Rightarrow>
               (case customAnalyser opts c w2 of
                  (Inl e, w3) \<Rightarrow> (Some e, s, w3)
                | (Inr custom, w3) \<Rightarrow>
                   (let s1 = s\<lparr>analyserRef := Some custom\<rparr>;
                        w4 = connectCustom h c custom w3;
                        s2 = s1\<lparr>audioContextRef := Some (audioContext c),
                                sourceRef := Some (sourceNode c)\<rparr>
                    in (case ensureConnectionChain h c w4 of
                          (Some e, w5) \<Rightarrow> (Some e, s2, w5)
                        | (None, w5) \<Rightarrow>
                           (let bufferLength = frequencyBinCount shared
                            in (None,
                                s2\<lparr>frequencyData := replicate bufferLength 0,
                                   isInitialized := True\<rparr>,
                                w5))))))))"

definition try_catch ::
  "exn option \<times> 'st \<Rightarrow> (exn \<Rightarrow> 'st \<Rightarrow> exn option \<times> 'st) \<Rightarrow> exn option \<times> 'st" where
  "try_catch r handler = (case r of (None, st) \<Rightarrow> (None, st) | (Some e, st) \<Rightarrow> handler e st)"

text \<open>
  initialize: the guard of line 42, then the try block with its handler of line 102. The
  first component of the result is the exception that reaches the caller.
\<close>

definition initialize ::
  "platform \<Rightarrow> element option \<Rightarrow> options \<Rightarrow> visualizer \<times> world
     \<Rightarrow> exn option \<times> visualizer \<times> world" where
  "initialize h audioElement opts st =
     (case st of (s, w) \<Rightarrow>
       (case audioElement of
          None \<Rightarrow> (None, s, w)
        | Some el \<Rightarrow>
            if isInitialized s \<or> audioContextRef s \<noteq> None then (None, s, w)
            else try_catch (initialize_try h el opts (s, w))
                   (\<lambda>e (s', w').
                      (None, s', consoleError ''Failed to initialize audio visualizer:'' e w'))))"

subsection \<open>Sampling (lines 113 to 133)\<close>

definition getFrequencyData :: "platform \<Rightarrow> visualizer \<Rightarrow> uint8 list" where
  "getFrequencyData h s =
     (case analyserRef s of
        None \<Rightarrow> []
      | Some a \<Rightarrow>
          (let bufferLength = frequencyBinCount a;
               dataArray = replicate bufferLength 0
           in getByteFrequencyData h a dataArray))"

definition getTimeDomainData :: "platform \<Rightarrow> visualizer \<Rightarrow> uint8 list" where
  "getTimeDomainData h s =
     (case analyserRef s of
        None \<Rightarrow> []
      | Some a \<Rightarrow>
          (let bufferLength = frequencyBinCount a;
               dataArray = replicate bufferLength 0
           in getByteTimeDomainData h a dataArray))"

subsection \<open>The visualization loop (lines 135 to 160)\<close>

text \<open>
  A loop is the closure \<open>updateData\<close> of one startVisualization call; it is identified
  by the callback it was started with. The callback is opaque: its invocation is recorded
  in the world, and it does not call back into the hook.
\<close>

definition updateData :: "platform \<Rightarrow> callback \<Rightarrow> visualizer \<times> world \<Rightarrow> visualizer \<times> world" where
  "updateData h cb st =
     (case st of (s, w) \<Rightarrow>
       (case analyserRef s of
          None \<Rightarrow> (s, w)
        | Some _ \<Rightarrow>
            (let data = getFrequencyData h s;
                 w1 = w\<lparr>invoked := invoked w @ [(cb, data)]\<rparr>
             in (case requestAnimationFrame cb w1 of
                   (handle, w2) \<Rightarrow> (s\<lparr>animationFrameRef := Some handle\<rparr>, w2)))))"

definition startVisualization ::
  "platform \<Rightarrow> callback \<Rightarrow> visualizer \<times> world \<Rightarrow> visualizer \<times> world" where
  "startVisualization h cb st =
     (case st of (s, w) \<Rightarrow>
       (case analyserRef s of
          None \<Rightarrow> (s, w)
        | Some _ \<Rightarrow> updateData h cb (s, w)))"

definition stopVisualization :: "visualizer \<times> world \<Rightarrow> visualizer \<times> world" where
  "stopVisualization st =
     (case st of (s, w) \<Rightarrow>
       (case animationFrameRef s of
          None \<Rightarrow> (s, w)
        | Some handle \<Rightarrow> (s\<lparr>animationFrameRef := None\<rparr>, cancelAnimationFrame handle w)))"

text \<open>
  One display frame of the scheduler: the requests pending at the start of the frame are
  taken off the list and run in order; what they request goes to the next frame.
\<close>

fun runCallbacks ::
  "platform \<Rightarrow> (nat \<times> callback) list \<Rightarrow> visualizer \<times> world \<Rightarrow> visualizer \<times> world" where
  "runCallbacks h [] st = st"
| "runCallbacks h ((handle, cb) # rest) st = runCallbacks h rest (updateData h cb st)"

definition animationFrame :: "platform \<Rightarrow> visualizer \<times> world \<Rightarrow> visualizer \<times> world" where
  "animationFrame h st =
     (case st of (s, w) \<Rightarrow> runCallbacks h (pending w) (s, w\<lparr>pending := []\<rparr>))"

datatype event = Start callback | Stop | Frame

fun step :: "platform \<Rightarrow> event \<Rightarrow> visualizer \<times> world \<Rightarrow> visualizer \<times> world" where
  "step h (Start cb) st = startVisualization h cb st"
| "step h Stop st = stopVisualization st"
| "step h Frame st = animationFrame h st"

fun run :: "platform \<Rightarrow> event list \<Rightarrow> visualizer \<times> world \<Rightarrow> visualizer \<times> world" where
  "run h [] st = st"
| "run h (ev # evs) st = run h evs (step h ev st)"

subsection \<open>Teardown and the getters (lines 193 to 218)\<close>

definition teardown :: "element option \<Rightarrow> visualizer \<times> world \<Rightarrow> visualizer \<times> world" where
  "teardown audioElement st =
     (case stopVisualization st of
        (s1, w1) \<Rightarrow>
          (let w2 = (case audioElement of
                       Some el \<Rightarrow> releaseAudioConnection el w1
                     | None \<Rightarrow> w1)
           in (s1\<lparr>audioContextRef := None, analyserRef := None, sourceRef := None,
                  isInitialized := False\<rparr>,
               w2)))"

definition getSampleRate :: "visualizer \<Rightarrow> real" where
  "getSampleRate s = (case audioContextRef s of None \<Rightarrow> 44100 | Some ctx \<Rightarrow> sampleRate ctx)"

definition getFFTSize :: "options \<Rightarrow> visualizer \<Rightarrow> real" where
  "getFFTSize opts s =
     (case analyserRef s of None \<Rightarrow> fftSize_of opts | Some a \<Rightarrow> real (fftSize a))"

subsection \<open>Traces and invariants of the properties\<close>

text \<open>
  A start/stop cycle with callback \<open>cb\<close> and \<open>k\<close> display frames in between is
  \<open>Start cb\<close>, \<open>k\<close> times \<open>Frame\<close>, \<open>Stop\<close>.
\<close>

fun cycles :: "(callback \<times> nat) list \<Rightarrow> event list" where
  "cycles [] = []"
| "cycles ((cb, k) # rest) = Start cb # replicate k Frame @ Stop # cycles rest"

text \<open>At most one frame request is pending, and animationFrameRef holds its handle.\<close>

definition loop_inv :: "visualizer \<times> world \<Rightarrow> bool" where
  "loop_inv st =
     (case st of (s, w) \<Rightarrow>
       (case pending w of
          [] \<Rightarrow> True
        | [(handle, cb)] \<Rightarrow> animationFrameRef s = Some handle
        | _ \<Rightarrow> False))"

text \<open>
  Node identities come from the allocator: every node of the graph and of the element's
  connection was handed out before \<open>next_node\<close>.
\<close>

definition allocated :: "element \<Rightarrow> world \<Rightarrow> bool" where
  "allocated el w \<longleftrightarrow>
     (\<forall>e \<in> edges w. fst e < next_node w \<and> snd e < next_node w)
     \<and> (case registry w el of
          None \<Rightarrow> True
        | Some c \<Rightarrow>
            (\<forall>n \<in> set (chain_nodes c). n < next_node w)
            \<and> (case analyser c of None \<Rightarrow> True | Some a \<Rightarrow> node_id a < next_node w))"

text \<open>
  Options that the attributes of a new analyser node accept in the order lines 67 to 70
  assign them: the converted fftSize is a power of two in range, the smoothing constant
  lies in 0 to 1, minDecibels is below the node's default maximum of -30 (still in place
  when line 69 runs) and below the maxDecibels assigned after it.
\<close>

definition accepted :: "options \<Rightarrow> bool" where
  "accepted opts \<longleftrightarrow>
     valid_fftSize (to_unsigned_long (fftSize_of opts))
     \<and> 0 \<le> smoothingTimeConstant_of opts \<and> smoothingTimeConstant_of opts \<le> 1
     \<and> minDecibels_of opts < - 30
     \<and> minDecibels_of opts < maxDecibels_of opts"

subsection \<open>Concrete hosts and worlds\<close>

definition quiet_platform :: platform where
  "quiet_platform =
     \<lparr>connect_error = (\<lambda>a b. None), acquire_error = None, ensure_error = None,
      host_sampleRate = 48000, byteFrequency = (\<lambda>n i. 0), byteTimeDomain = (\<lambda>n i. 128)\<rparr>"

text \<open>A platform on which every hookup into node 3 raises.\<close>

definition tap_fault_platform :: platform where
  "tap_fault_platform =
     quiet_platform\<lparr>connect_error := (\<lambda>a b. if b = 3 then Some InvalidAccessError else None)\<rparr>"

text \<open>A platform that differs from the quiet one only in what node 2 holds.\<close>

definition shared_noise_platform :: platform where
  "shared_noise_platform =
     quiet_platform\<lparr>byteFrequency := (\<lambda>n i. if n = 2 then 255 else 0),
                    byteTimeDomain := (\<lambda>n i. if n = 2 then 0 else 128)\<rparr>"

definition empty_world :: world where
  "empty_world =
     \<lparr>registry = (\<lambda>el. None), bound_elsewhere = (\<lambda>el. False), edges = {}, next_node = 0,
      console = [], pending = [], next_handle = 0, invoked = []\<rparr>"

text \<open>Element 0 is bound to a graph the registry does not own.\<close>

definition bound_world :: world where
  "bound_world = empty_world\<lparr>bound_elsewhere := (\<lambda>el. el = 0)\<rparr>"

text \<open>Element 0 has a connection: source 1, filters 2 and 3, destination 0.\<close>

definition filtered_world :: world where
  "filtered_world =
     empty_world
       \<lparr>registry :=
          (\<lambda>el. if el = 0
                then Some \<lparr>audioContext = \<lparr>sampleRate = 44100, destination = 0\<rparr>,
                           sourceNode = 1, filters = Some [2, 3], analyser = None,
                           refCount = 1\<rparr>
                else None),
        edges := {(1, 2), (2, 3), (3, 0)}, next_node := 4\<rparr>"

text \<open>A platform on which node 3 holds bytes that no other node holds.\<close>

definition probe_platform :: platform where
  "probe_platform =
     quiet_platform\<lparr>byteFrequency := (\<lambda>n i. if n = 3 then 7 else 255),
                    byteTimeDomain := (\<lambda>n i. if n = 3 then 9 else 0)\<rparr>"

definition bad_options :: options where
  "bad_options = default_options\<lparr>opt_fftSize := Some 100\<rparr>"




text \<open>The hook after a first initialize with the default options on an empty world.\<close>

definition initialized_state :: "visualizer \<times> world" where
  "initialized_state =
     snd (initialize quiet_platform (Some 0) default_options (initial_visualizer, empty_world))"

section \<open>Auxiliary facts\<close>

lemmas analyser_defs = createAnalyser_def set_fftSize_def set_smoothingTimeConstant_def
  set_minDecibels_def set_maxDecibels_def

lemmas eval_defs = initialize_def initialize_try_def try_catch_def
  getOrCreateAudioConnection_def sharedAnalyser_def customAnalyser_def analyser_defs
  to_unsigned_long_def valid_fftSize_def connectCustom_def connect_def tap_input_def ensureConnectionChain_def
  chain_nodes_def consoleError_def frequencyBinCount_def fftSize_of_def
  smoothingTimeConstant_of_def minDecibels_of_def maxDecibels_of_def default_options_def
  quiet_platform_def empty_world_def initial_visualizer_def Let_def

lemmas loop_defs = startVisualization_def stopVisualization_def updateData_def
  requestAnimationFrame_def cancelAnimationFrame_def animationFrame_def

subsection \<open>The analysers of initialize\<close>

lemma sharedAnalyser_present:
  "analyser c = Some a \<Longrightarrow> sharedAnalyser el c w = (Inr (a, c), w)"
  by (simp add: sharedAnalyser_def)

lemma sharedAnalyser_absent:
  "analyser c = None \<Longrightarrow>
     sharedAnalyser el c w =
       (let a = \<lparr>node_id = next_node w, fftSize = 2048, smoothingTimeConstant = 0.75,
                 minDecibels = - 100, maxDecibels = - 30\<rparr>;
            c' = c\<lparr>analyser := Some a\<rparr>
        in (Inr (a, c'),
            w\<lparr>next_node := Suc (next_node w), registry := (registry w)(el \<mapsto> c')\<rparr>))"
  by (simp add: sharedAnalyser_def analyser_defs to_unsigned_long_def valid_fftSize_def Let_def)

lemma customAnalyser_Inr:
  "customAnalyser opts c w = (Inr a, w') \<Longrightarrow>
     node_id a = next_node w \<and> fftSize a = to_unsigned_long (fftSize_of opts)
     \<and> valid_fftSize (fftSize a)
     \<and> smoothingTimeConstant a = smoothingTimeConstant_of opts
     \<and> minDecibels a = minDecibels_of opts \<and> maxDecibels a = maxDecibels_of opts
     \<and> w' = w\<lparr>next_node := Suc (next_node w)\<rparr>"
  by (auto simp: customAnalyser_def analyser_defs Let_def split: if_splits)

lemma customAnalyser_accepted:
  "accepted opts \<Longrightarrow>
     customAnalyser opts c w =
       (Inr \<lparr>node_id = next_node w, fftSize = to_unsigned_long (fftSize_of opts),
              smoothingTimeConstant = smoothingTimeConstant_of opts,
              minDecibels = minDecibels_of opts, maxDecibels = maxDecibels_of opts\<rparr>,
        w\<lparr>next_node := Suc (next_node w)\<rparr>)"
  by (simp add: accepted_def customAnalyser_def analyser_defs Let_def)

lemma customAnalyser_Inr_accepted:
  "customAnalyser opts c w = (Inr a, w') \<Longrightarrow> accepted opts"
  by (auto simp: accepted_def customAnalyser_def analyser_defs Let_def split: if_splits)

lemma initialize_success:
  assumes "initialize h audioElement opts (s, w) = (x, s', w')"
    and "\<not> isInitialized s" and "isInitialized s'"
  shows "\<exists>a. analyserRef s' = Some a \<and> fftSize a = to_unsigned_long (fftSize_of opts)
     \<and> valid_fftSize (fftSize a)"
  using assms
  by (auto simp: initialize_def initialize_try_def try_catch_def Let_def
      split: option.splits if_splits prod.splits sum.splits dest!: customAnalyser_Inr)

lemma initialize_try_raise:
  "initialize_try h el opts (s, w) = (Some e, s1, w1) \<Longrightarrow> isInitialized s1 = isInitialized s"
  by (auto simp: initialize_try_def Let_def split: option.splits prod.splits sum.splits)

lemma acquire_unavailable:
  "fst (getOrCreateAudioConnection h el w) = Inr None \<Longrightarrow>
     getOrCreateAudioConnection h el w = (Inr None, w)"
  by (auto simp: getOrCreateAudioConnection_def Let_def split: option.splits if_splits)

lemma initialized_state_eq:
  "initialize quiet_platform (Some 0) default_options (initial_visualizer, empty_world)
     = (None, initialized_state)"
  by (simp add: initialized_state_def eval_defs)

lemma initialized_state_facts:
  "analyserRef (fst initialized_state)
     = Some \<lparr>node_id = 3, fftSize = 128, smoothingTimeConstant = 0.8,
             minDecibels = - 90, maxDecibels = - 10\<rparr>"
  "isInitialized (fst initialized_state)"
  "pending (snd initialized_state) = []"
  "invoked (snd initialized_state) = []"
  by (simp_all add: initialized_state_def eval_defs)

subsection \<open>Sampling\<close>

lemma length_getByteFrequencyData [simp]: "length (getByteFrequencyData h a arr) = length arr"
  by (simp add: getByteFrequencyData_def)

lemma length_getByteTimeDomainData [simp]: "length (getByteTimeDomainData h a arr) = length arr"
  by (simp add: getByteTimeDomainData_def)

lemma uint8_range: "unat (b :: uint8) \<le> 255"
  using unsigned_less [of b, where ?'a = nat] by simp

subsection \<open>The loop\<close>

lemma run_append: "run h (xs @ ys) st = run h ys (run h xs st)"
  by (induction xs arbitrary: st) simp_all

lemma loop_inv_start:
  "pending w = [] \<Longrightarrow> loop_inv (startVisualization h cb (s, w))"
  by (auto simp: loop_inv_def loop_defs Let_def split: option.splits)

lemma loop_inv_frame:
  "loop_inv st \<Longrightarrow> loop_inv (animationFrame h st)"
  by (cases st)
    (auto simp: loop_inv_def loop_defs Let_def split: option.splits list.splits)

lemma loop_inv_frames:
  "loop_inv st \<Longrightarrow> loop_inv (run h (replicate k Frame) st)"
  by (induction k arbitrary: st) (simp_all add: loop_inv_frame)

lemma loop_inv_stop:
  "loop_inv st \<Longrightarrow> pending (snd (stopVisualization st)) = []"
  by (cases st)
    (auto simp: loop_inv_def loop_defs split: option.splits list.splits)

lemma stop_invoked: "invoked (snd (stopVisualization st)) = invoked (snd st)"
  by (cases st) (auto simp: loop_defs split: option.splits)

lemma frame_idle:
  "pending (snd st) = [] \<Longrightarrow> animationFrame h st = st"
  by (cases st) (simp add: animationFrame_def)

lemma frames_idle:
  "pending (snd st) = [] \<Longrightarrow> run h (replicate m Frame) st = st"
  by (induction m) (simp_all add: frame_idle)

lemma cycle_quiet:
  assumes "pending (snd st) = []"
  shows "pending (snd (run h (Start cb # replicate k Frame @ [Stop]) st)) = []"
proof -
  obtain s w where st: "st = (s, w)" by (cases st)
  with assms have "loop_inv (startVisualization h cb st)"
    by (simp add: loop_inv_start)
  then have "loop_inv (run h (replicate k Frame) (startVisualization h cb st))"
    by (rule loop_inv_frames)
  then show ?thesis
    by (simp add: run_append loop_inv_stop)
qed

lemma cycles_quiet:
  "pending (snd st) = [] \<Longrightarrow> pending (snd (run h (cycles cs) st)) = []"
proof (induction cs arbitrary: st)
  case Nil
  then show ?case by simp
next
  case (Cons c cs)
  obtain cb k where c: "c = (cb, k)" by (cases c)
  have "pending (snd (run h (Start cb # replicate k Frame @ [Stop]) st)) = []"
    using Cons.prems by (rule cycle_quiet)
  then have
    "pending (snd (run h (cycles cs) (run h (Start cb # replicate k Frame @ [Stop]) st))) = []"
    by (rule Cons.IH)
  then show ?case
    by (simp add: c run_append)
qed

lemma overlap_trace:
  assumes "analyserRef s = Some a" and "pending w = []" and "invoked w = []"
  shows "map fst (invoked (snd (run h [Start 1, Start 2, Stop] (s, w)))) = [1, 2]
     \<and> map fst (invoked (snd (run h [Start 1, Start 2, Stop, Frame] (s, w)))) = [1, 2, 1]"
  using assms by (simp add: loop_defs Let_def)

lemma cycle_trace:
  assumes "analyserRef s = Some a" and "pending w = []" and "invoked w = []"
  shows "map fst (invoked (snd (run h
        (cycles [(1, 2), (2, 0)] @ Start 3 # replicate 1 Frame @ Stop # replicate 2 Frame)
        (s, w))))
     = [1, 1, 1, 2, 3, 3]"
  using assms by (simp add: loop_defs Let_def eval_nat_numeral)

subsection \<open>The graph\<close>

lemma chain_links_nodes:
  "(a, b) \<in> set (chain_links ns) \<Longrightarrow> a \<in> set ns \<and> b \<in> set ns"
  by (induction ns rule: chain_links.induct) auto

lemma tap_input_in_chain: "tap_input c \<in> set (chain_nodes c)"
  by (auto simp: tap_input_def chain_nodes_def split: option.splits list.splits)

lemma hookup_edges:
  "edges (hookup h ls w) = edges w \<union> {l \<in> set ls. connect_error h (fst l) (snd l) = None}"
  by (induction ls arbitrary: w)
    (auto simp: connect_def consoleError_def split: option.splits)

lemma hookup_registry: "registry (hookup h ls w) = registry w"
  by (induction ls arbitrary: w)
    (auto simp: connect_def consoleError_def split: option.splits)

lemma ensure_edges:
  "edges (snd (ensureConnectionChain h c w)) =
     edges w \<union> (if ensure_error h = None
                 then {l \<in> set (chain_links (chain_nodes c)).
                         connect_error h (fst l) (snd l) = None}
                 else {})"
  by (auto simp: ensureConnectionChain_def hookup_edges split: option.splits)

lemma ensure_registry: "registry (snd (ensureConnectionChain h c w)) = registry w"
  by (auto simp: ensureConnectionChain_def hookup_registry split: option.splits)

lemma connectCustom_edges:
  "edges (connectCustom h c a w) =
     (if connect_error h (tap_input c) (node_id a) = None
      then insert (tap_input c, node_id a) (edges w) else edges w)"
  by (auto simp: connectCustom_def connect_def consoleError_def split: option.splits)

lemma connectCustom_registry: "registry (connectCustom h c a w) = registry w"
  by (auto simp: connectCustom_def connect_def consoleError_def split: option.splits)

lemma chain_nodes_update [simp]:
  "chain_nodes (c\<lparr>refCount := k\<rparr>) = chain_nodes c"
  "chain_nodes (c\<lparr>analyser := a\<rparr>) = chain_nodes c"
  by (simp_all add: chain_nodes_def)

lemma tap_input_update [simp]:
  "tap_input (c\<lparr>analyser := a\<rparr>) = tap_input c"
  by (simp add: tap_input_def split: option.splits list.splits)

lemma acquire_Some:
  assumes "getOrCreateAudioConnection h el w = (Inr (Some c0), w1)" and "allocated el w"
  shows "registry w1 el = Some c0 \<and> edges w1 = edges w \<and> next_node w \<le> next_node w1
     \<and> (\<forall>n \<in> set (chain_nodes c0). n < next_node w1)"
proof (cases "registry w el")
  case None
  with assms(1) show ?thesis
    by (auto simp: getOrCreateAudioConnection_def chain_nodes_def Let_def
        split: option.splits if_splits)
next
  case (Some c)
  with assms(2) have "\<forall>n \<in> set (chain_nodes c). n < next_node w"
    by (simp add: allocated_def)
  with Some assms(1) show ?thesis
    by (auto simp: getOrCreateAudioConnection_def Let_def split: option.splits)
qed

lemma sharedAnalyser_result:
  assumes "sharedAnalyser el c0 w1 = (Inr (shared, c), w2)" and "registry w1 el = Some c0"
  shows "registry w2 el = Some c \<and> chain_nodes c = chain_nodes c0 \<and> tap_input c = tap_input c0
     \<and> edges w2 = edges w1 \<and> next_node w1 \<le> next_node w2"
proof (cases "analyser c0")
  case None
  with assms show ?thesis
    by (auto simp: sharedAnalyser_absent Let_def)
next
  case (Some a)
  with assms show ?thesis
    by (auto simp: sharedAnalyser_present)
qed

lemma acquire_analyser:
  assumes "getOrCreateAudioConnection h el w = (Inr (Some c0), w1)" and "allocated el w"
    and "analyser c0 = Some a"
  shows "node_id a < next_node w1"
  using assms
  by (auto simp: getOrCreateAudioConnection_def allocated_def Let_def
      split: option.splits if_splits)

lemma sharedAnalyser_node:
  assumes "sharedAnalyser el c0 w1 = (Inr (shared, c), w2)"
    and "\<And>a. analyser c0 = Some a \<Longrightarrow> node_id a < next_node w1"
  shows "analyser c = Some shared \<and> node_id shared < next_node w2"
proof (cases "analyser c0")
  case None
  with assms(1) show ?thesis
    by (auto simp: sharedAnalyser_absent Let_def)
next
  case (Some a)
  with assms show ?thesis
    by (auto simp: sharedAnalyser_present)
qed

lemma initialize_try_tap:
  assumes "initialize_try h el opts (s, w) = (x, s', w')"
    and "analyserRef s = None" and "analyserRef s' = Some custom"
  shows "\<exists>c0 w1 shared c w2.
           getOrCreateAudioConnection h el w = (Inr (Some c0), w1)
           \<and> sharedAnalyser el c0 w1 = (Inr (shared, c), w2)
           \<and> node_id custom = next_node w2
           \<and> w' = snd (ensureConnectionChain h c
                    (connectCustom h c custom (w2\<lparr>next_node := Suc (next_node w2)\<rparr>)))"
  using assms
  by (auto simp: initialize_try_def Let_def
      split: option.splits prod.splits sum.splits dest!: customAnalyser_Inr)

lemma initialize_tap:
  assumes "initialize h (Some el) opts (s, w) = (x, s', w')"
    and "analyserRef s = None" and "analyserRef s' = Some custom"
  shows "\<exists>c0 w1 shared c w2 w5.
           getOrCreateAudioConnection h el w = (Inr (Some c0), w1)
           \<and> sharedAnalyser el c0 w1 = (Inr (shared, c), w2)
           \<and> node_id custom = next_node w2
           \<and> w5 = snd (ensureConnectionChain h c
                    (connectCustom h c custom (w2\<lparr>next_node := Suc (next_node w2)\<rparr>)))
           \<and> edges w' = edges w5 \<and> registry w' = registry w5"
proof -
  from assms have g: "\<not> isInitialized s" "audioContextRef s = None"
    by (auto simp: initialize_def split: if_splits)
  obtain y s1 w1 where t: "initialize_try h el opts (s, w) = (y, s1, w1)"
    by (cases "initialize_try h el opts (s, w)") auto
  with assms(1) g have r: "s' = s1" "edges w' = edges w1" "registry w' = registry w1"
    by (auto simp: initialize_def try_catch_def consoleError_def split: option.splits)
  from initialize_try_tap [OF t assms(2)] assms(3) r show ?thesis
    by auto
qed

subsection \<open>Runs of initialize that reach the hookup\<close>

lemma sharedAnalyser_total:
  "\<exists>shared c w2. sharedAnalyser el c0 w1 = (Inr (shared, c), w2)"
  by (cases "analyser c0") (simp_all add: sharedAnalyser_present sharedAnalyser_absent Let_def)

lemma hookup_console: "set (console w) \<subseteq> set (console (hookup h ls w))"
proof (induction ls arbitrary: w)
  case Nil
  then show ?case by simp
next
  case (Cons l ls)
  obtain a b where l: "l = (a, b)" by (cases l)
  let ?w = "case connect h a b w of
          (None, w') \<Rightarrow> w'
        | (Some e, w') \<Rightarrow> consoleError ''[audioContextManager] Error connecting chain:'' e w'"
  have "set (console w) \<subseteq> set (console ?w)"
    by (auto simp: connect_def consoleError_def split: option.splits)
  also have "\<dots> \<subseteq> set (console (hookup h ls ?w))"
    by (rule Cons.IH)
  finally show ?case
    by (simp add: l)
qed

lemma ensure_console:
  "set (console w) \<subseteq> set (console (snd (ensureConnectionChain h c w)))"
  using hookup_console [of w h "chain_links (chain_nodes c)"]
  by (auto simp: ensureConnectionChain_def split: option.splits)

lemma ensure_quiet:
  "ensure_error h = None \<Longrightarrow> fst (ensureConnectionChain h c w) = None"
  by (simp add: ensureConnectionChain_def)

lemma initialize_run:
  assumes "\<not> isInitialized s" and "audioContextRef s = None"
    and "getOrCreateAudioConnection h el w = (Inr (Some c0), w1)"
    and "sharedAnalyser el c0 w1 = (Inr (shared, c), w2)"
    and "accepted opts"
  shows "initialize h (Some el) opts (s, w) =
     (let custom = \<lparr>node_id = next_node w2, fftSize = to_unsigned_long (fftSize_of opts),
                     smoothingTimeConstant = smoothingTimeConstant_of opts,
                     minDecibels = minDecibels_of opts, maxDecibels = maxDecibels_of opts\<rparr>;
          w4 = connectCustom h c custom (w2\<lparr>next_node := Suc (next_node w2)\<rparr>);
          s2 = s\<lparr>analyserRef := Some custom, audioContextRef := Some (audioContext c),
                 sourceRef := Some (sourceNode c)\<rparr>
      in (case ensureConnectionChain h c w4 of
            (Some e, w5) \<Rightarrow>
              (None, s2, consoleError ''Failed to initialize audio visualizer:'' e w5)
          | (None, w5) \<Rightarrow>
              (None,
               s2\<lparr>frequencyData := replicate (frequencyBinCount shared) 0,
                  isInitialized := True\<rparr>,
               w5)))"
  using assms
  by (simp add: initialize_def initialize_try_def try_catch_def customAnalyser_accepted Let_def
      split: prod.splits option.splits)

lemma sampled_spectrum:
  "analyserRef s = Some a \<Longrightarrow>
     getFrequencyData h s = map (byteFrequency h (node_id a)) [0..<frequencyBinCount a]"
  by (simp add: getFrequencyData_def getByteFrequencyData_def Let_def)

lemma sampled_waveform:
  "analyserRef s = Some a \<Longrightarrow>
     getTimeDomainData h s = map (byteTimeDomain h (node_id a)) [0..<frequencyBinCount a]"
  by (auto simp: getTimeDomainData_def getByteTimeDomainData_def Let_def frequencyBinCount_def)


section \<open>Properties\<close>

text \<open>
  C1. The claim: after a successful initialize the frequency buffer has the length of the
  hook's own analyser, fftSize / 2, so 64 under the defaults. Line 97 reads
  frequencyBinCount from the local \<open>analyser\<close>, which is the connection's shared
  analyser (fftSize 2048), not from \<open>customAnalyser\<close>. With the default options on a
  connection that has no analyser yet, initialize succeeds, the hook's own analyser has 64
  bins, and the buffer has 1024 entries.
\<close>

theorem initialize_buffer_length_default:
  "isInitialized (fst initialized_state)
   \<and> map_option frequencyBinCount (analyserRef (fst initialized_state)) = Some 64
   \<and> length (frequencyData (fst initialized_state)) = 1024"
  by (simp add: initialized_state_def eval_defs)

text \<open>
  C2. While no analyser exists, getFrequencyData and getTimeDomainData return the empty
  array. With an analyser they return an array of frequencyBinCount bytes, each from 0 to
  255; after a successful initialize that is the frequencyBinCount of the stored analyser,
  half the fftSize the attribute made of the option. Neither has a raising branch: the
  result is always an array.
\<close>

theorem sampling_lengths:
  "(analyserRef s = None \<longrightarrow> getFrequencyData h s = [] \<and> getTimeDomainData h s = [])
   \<and> (analyserRef s = Some a \<longrightarrow>
        length (getFrequencyData h s) = frequencyBinCount a
        \<and> length (getTimeDomainData h s) = frequencyBinCount a)
   \<and> (\<forall>b \<in> set (getFrequencyData h s) \<union> set (getTimeDomainData h s). unat b \<le> 255)
   \<and> (initialize h' audioElement opts (s0, w0) = (x, s, w) \<and> \<not> isInitialized s0
        \<and> isInitialized s \<longrightarrow>
        length (getFrequencyData h s) = to_unsigned_long (fftSize_of opts) div 2
        \<and> length (getTimeDomainData h s) = to_unsigned_long (fftSize_of opts) div 2
        \<and> (\<exists>a. analyserRef s = Some a
              \<and> frequencyBinCount a = to_unsigned_long (fftSize_of opts) div 2))"
proof (intro conjI impI ballI)
  assume "analyserRef s = None"
  then show "getFrequencyData h s = []" "getTimeDomainData h s = []"
    by (simp_all add: getFrequencyData_def getTimeDomainData_def)
next
  assume "analyserRef s = Some a"
  then show "length (getFrequencyData h s) = frequencyBinCount a"
    "length (getTimeDomainData h s) = frequencyBinCount a"
    by (simp_all add: getFrequencyData_def getTimeDomainData_def Let_def)
next
  fix b :: uint8
  show "unat b \<le> 255" by (rule uint8_range)
next
  assume a: "initialize h' audioElement opts (s0, w0) = (x, s, w) \<and> \<not> isInitialized s0
        \<and> isInitialized s"
  then obtain c where c: "analyserRef s = Some c"
    "fftSize c = to_unsigned_long (fftSize_of opts)"
    using initialize_success [of h' audioElement opts s0 w0 x s w] by blast
  then show "length (getFrequencyData h s) = to_unsigned_long (fftSize_of opts) div 2"
    "length (getTimeDomainData h s) = to_unsigned_long (fftSize_of opts) div 2"
    "\<exists>a. analyserRef s = Some a
       \<and> frequencyBinCount a = to_unsigned_long (fftSize_of opts) div 2"
    by (simp_all add: getFrequencyData_def getTimeDomainData_def Let_def frequencyBinCount_def)
qed

theorem sampling_lengths_witness:
  "getFrequencyData quiet_platform initial_visualizer = []
   \<and> getTimeDomainData quiet_platform initial_visualizer = []
   \<and> length (getFrequencyData quiet_platform (fst initialized_state)) = 64
   \<and> length (getTimeDomainData quiet_platform (fst initialized_state)) = 64"
proof -
  have a: "analyserRef initial_visualizer = None" "\<not> isInitialized initial_visualizer"
    by (simp_all add: initial_visualizer_def)
  have b: "initialize quiet_platform (Some 0) default_options (initial_visualizer, empty_world)
      = (None, fst initialized_state, snd initialized_state)"
    by (simp add: initialized_state_eq)
  have c: "to_unsigned_long (fftSize_of default_options) div 2 = 64"
    by (simp add: to_unsigned_long_def fftSize_of_def default_options_def)
  from a(1) sampling_lengths [where s = initial_visualizer and h = quiet_platform]
  have "getFrequencyData quiet_platform initial_visualizer = []
      \<and> getTimeDomainData quiet_platform initial_visualizer = []"
    by blast
  moreover from a(2) b initialized_state_facts(2)
    sampling_lengths [where s = "fst initialized_state" and h = quiet_platform
      and h' = quiet_platform and audioElement = "Some 0" and opts = default_options
      and ?s0.0 = initial_visualizer and ?w0.0 = empty_world and x = None
      and w = "snd initialized_state"]
  have "length (getFrequencyData quiet_platform (fst initialized_state))
        = to_unsigned_long (fftSize_of default_options) div 2
      \<and> length (getTimeDomainData quiet_platform (fst initialized_state))
        = to_unsigned_long (fftSize_of default_options) div 2"
    by blast
  moreover from initialized_state_facts(1)
    sampling_lengths [where s = "fst initialized_state" and h = quiet_platform
      and a = "\<lparr>node_id = 3, fftSize = 128, smoothingTimeConstant = 0.8,
             minDecibels = - 90, maxDecibels = - 10\<rparr>"]
  have "length (getFrequencyData quiet_platform (fst initialized_state))
      = frequencyBinCount \<lparr>node_id = 3, fftSize = 128, smoothingTimeConstant = 0.8,
             minDecibels = - 90, maxDecibels = - 10\<rparr>"
    by blast
  ultimately show ?thesis
    by (simp add: c)
qed

text \<open>
  C3, as claimed: once stopVisualization has returned, no loop started before it invokes
  its callback again. The hook keeps one handle, that of the frame requested last. When
  startVisualization runs twice without a stop in between, the stop cancels the second
  loop's request only, and the next frame invokes the first loop's callback.
\<close>

theorem overlapping_loops_counterexample:
  "map fst (invoked (snd (run quiet_platform [Start 1, Start 2, Stop] initialized_state)))
     = [1, 2]
   \<and> map fst (invoked (snd (run quiet_platform [Start 1, Start 2, Stop, Frame]
        initialized_state)))
     = [1, 2, 1]"
  using overlap_trace [of "fst initialized_state" _ "snd initialized_state" quiet_platform]
    initialized_state_facts
  by simp

text \<open>
  C3, amended: when no frame request is pending at the first start and starts and stops
  alternate, then after any number of start/stop cycles, each with any number of frames,
  and a further start with \<open>k\<close> frames (for \<open>k = 0\<close> the stop meets the request of the
  start itself), stopVisualization leaves no frame request pending, and the frames that
  follow invoke no callback.
\<close>

theorem stop_cancels_loop:
  assumes "pending w = []"
  shows "pending (snd (run h (cycles cs @ Start cb # replicate k Frame @ [Stop]) (s, w))) = []
     \<and> invoked (snd (run h (cycles cs @ Start cb # replicate k Frame @ Stop # replicate m Frame)
          (s, w)))
       = invoked (snd (run h (cycles cs @ Start cb # replicate k Frame) (s, w)))"
proof -
  let ?st = "run h (cycles cs) (s, w)"
  have q: "pending (snd ?st) = []"
    using assms by (simp add: cycles_quiet)
  have p: "pending (snd (run h (Start cb # replicate k Frame @ [Stop]) ?st)) = []"
    using q by (rule cycle_quiet)
  have "run h (replicate m Frame) (run h (Start cb # replicate k Frame @ [Stop]) ?st)
      = run h (Start cb # replicate k Frame @ [Stop]) ?st"
    using p by (rule frames_idle)
  then have "run h (cycles cs @ Start cb # replicate k Frame @ Stop # replicate m Frame) (s, w)
      = run h (cycles cs @ Start cb # replicate k Frame @ [Stop]) (s, w)"
    by (simp add: run_append)
  moreover have "invoked (snd (run h (cycles cs @ Start cb # replicate k Frame @ [Stop]) (s, w)))
      = invoked (snd (run h (cycles cs @ Start cb # replicate k Frame) (s, w)))"
    using run_append [of h "cycles cs @ Start cb # replicate k Frame" "[Stop]" "(s, w)"]
    by (simp add: stop_invoked)
  ultimately show ?thesis
    using p by (simp add: run_append)
qed

theorem stop_cancels_loop_witness:
  "pending (snd initialized_state) = []
   \<and> map fst (invoked (snd (run quiet_platform
        (cycles [(1, 2), (2, 0)] @ Start 3 # replicate 1 Frame @ Stop # replicate 2 Frame)
        initialized_state)))
     = [1, 1, 1, 2, 3, 3]
   \<and> invoked (snd (run quiet_platform
        (cycles [(1, 2), (2, 0)] @ Start 3 # replicate 1 Frame @ Stop # replicate 2 Frame)
        initialized_state))
     = invoked (snd (run quiet_platform
        (cycles [(1, 2), (2, 0)] @ Start 3 # replicate 1 Frame) initialized_state))"
proof -
  have p: "pending (snd initialized_state) = []"
    by (rule initialized_state_facts)
  have t: "map fst (invoked (snd (run quiet_platform
        (cycles [(1, 2), (2, 0)] @ Start 3 # replicate 1 Frame @ Stop # replicate 2 Frame)
        initialized_state)))
     = [1, 1, 1, 2, 3, 3]"
    using cycle_trace [of "fst initialized_state" _ "snd initialized_state" quiet_platform]
      initialized_state_facts
    by simp
  from p t show ?thesis
    using stop_cancels_loop [of "snd initialized_state" quiet_platform "[(1, 2), (2, 0)]" 3 1
        "fst initialized_state" 2]
    by simp
qed

text \<open>
  C4. When the registry reports the element as unavailable, initialize returns without an
  exception and changes nothing: isInitialized and the references are as before, no
  analyser node is created, no buffer allocated, nothing logged.
\<close>

theorem initialize_unavailable:
  "fst (getOrCreateAudioConnection h el w) = Inr None \<Longrightarrow>
     initialize h (Some el) opts (s, w) = (None, s, w)"
  by (auto simp: initialize_def initialize_try_def try_catch_def dest!: acquire_unavailable)

theorem initialize_unavailable_witness:
  "fst (getOrCreateAudioConnection quiet_platform 0 bound_world) = Inr None
   \<and> initialize quiet_platform (Some 0) default_options (initial_visualizer, bound_world)
       = (None, initial_visualizer, bound_world)"
  using initialize_unavailable [of quiet_platform 0 bound_world default_options initial_visualizer]
  by (simp add: getOrCreateAudioConnection_def quiet_platform_def bound_world_def empty_world_def)

text \<open>
  C5, as claimed: after any exception inside initialize, isInitialized stays false. The
  hookup of the hook's own analyser has a handler of its own (lines 76 to 88) that logs and
  goes on: on a platform where that hookup raises, initialize logs the error, completes and
  sets isInitialized.
\<close>

theorem initialize_tap_failure_counterexample:
  "connect_error tap_fault_platform 1 3 = Some InvalidAccessError
   \<and> isInitialized (fst (snd (initialize tap_fault_platform (Some 0) default_options
         (initial_visualizer, empty_world))))
   \<and> console (snd (snd (initialize tap_fault_platform (Some 0) default_options
         (initial_visualizer, empty_world))))
       = [(''[useAudioVisualizer] Error connecting custom analyser:'', InvalidAccessError)]"
  by (simp add: eval_defs tap_fault_platform_def)

text \<open>
  C5, amended: no exception leaves initialize. An exception that leaves the try block is
  logged by the handler of line 102 and isInitialized stays false. An exception of the
  hook's own analyser hookup is logged by the inner handler and does not leave the block;
  initialization goes on: with a connection acquired, options the analyser accepts and a
  chain completion that does not raise, isInitialized is set and the analyser stored
  whether or not that hookup raises, and a hookup error is in the console.
\<close>

theorem initialize_catches:
  "fst (initialize h audioElement opts (s, w)) = None
   \<and> (audioElement = Some el \<and> \<not> isInitialized s \<and> audioContextRef s = None
        \<and> initialize_try h el opts (s, w) = (Some e, s1, w1) \<longrightarrow>
      initialize h audioElement opts (s, w)
        = (None, s1, consoleError ''Failed to initialize audio visualizer:'' e w1)
      \<and> \<not> isInitialized s1)
   \<and> (connect_error h (tap_input c) (node_id a) = Some e' \<longrightarrow>
      connectCustom h c a w
        = consoleError ''[useAudioVisualizer] Error connecting custom analyser:'' e' w)
   \<and> (audioElement = Some el \<and> \<not> isInitialized s \<and> audioContextRef s = None
        \<and> fst (getOrCreateAudioConnection h el w) = Inr (Some c0) \<and> accepted opts
        \<and> ensure_error h = None \<longrightarrow>
      isInitialized (fst (snd (initialize h audioElement opts (s, w))))
      \<and> (\<exists>cn custom.
            analyserRef (fst (snd (initialize h audioElement opts (s, w)))) = Some custom
            \<and> registry (snd (snd (initialize h audioElement opts (s, w)))) el = Some cn
            \<and> (\<forall>err. connect_error h (tap_input cn) (node_id custom) = Some err \<longrightarrow>
                  (''[useAudioVisualizer] Error connecting custom analyser:'', err)
                    \<in> set (console (snd (snd (initialize h audioElement opts (s, w))))))))"
proof (intro conjI impI)
  show "fst (initialize h audioElement opts (s, w)) = None"
    by (auto simp: initialize_def try_catch_def split: option.splits prod.splits)
next
  assume a: "audioElement = Some el \<and> \<not> isInitialized s \<and> audioContextRef s = None
        \<and> initialize_try h el opts (s, w) = (Some e, s1, w1)"
  then show "initialize h audioElement opts (s, w)
        = (None, s1, consoleError ''Failed to initialize audio visualizer:'' e w1)"
    by (simp add: initialize_def try_catch_def)
  from a show "\<not> isInitialized s1"
    using initialize_try_raise [of h el opts s w e s1 w1] by simp
next
  assume "connect_error h (tap_input c) (node_id a) = Some e'"
  then show "connectCustom h c a w
        = consoleError ''[useAudioVisualizer] Error connecting custom analyser:'' e' w"
    by (simp add: connectCustom_def connect_def)
next
  assume a: "audioElement = Some el \<and> \<not> isInitialized s \<and> audioContextRef s = None
        \<and> fst (getOrCreateAudioConnection h el w) = Inr (Some c0) \<and> accepted opts
        \<and> ensure_error h = None"
  let ?r = "initialize h audioElement opts (s, w)"
  obtain w1 where acq: "getOrCreateAudioConnection h el w = (Inr (Some c0), w1)"
    using a by (cases "getOrCreateAudioConnection h el w") auto
  obtain shared cn w2 where sh: "sharedAnalyser el c0 w1 = (Inr (shared, cn), w2)"
    using sharedAnalyser_total by blast
  define custom where "custom = \<lparr>node_id = next_node w2,
      fftSize = to_unsigned_long (fftSize_of opts),
      smoothingTimeConstant = smoothingTimeConstant_of opts,
      minDecibels = minDecibels_of opts, maxDecibels = maxDecibels_of opts\<rparr>"
  define w4 where "w4 = connectCustom h cn custom (w2\<lparr>next_node := Suc (next_node w2)\<rparr>)"
  obtain w5 where en: "ensureConnectionChain h cn w4 = (None, w5)"
    using a ensure_quiet [of h cn w4] by (cases "ensureConnectionChain h cn w4") auto
  from a acq sh en have r: "?r =
      (None,
       s\<lparr>analyserRef := Some custom, audioContextRef := Some (audioContext cn),
          sourceRef := Some (sourceNode cn),
          frequencyData := replicate (frequencyBinCount shared) 0, isInitialized := True\<rparr>,
       w5)"
    using initialize_run [of s h el w c0 w1 shared cn w2 opts]
    by (simp add: custom_def w4_def Let_def)
  then show "isInitialized (fst (snd ?r))"
    by simp
  have w5: "w5 = snd (ensureConnectionChain h cn w4)"
    by (simp add: en)
  have al: "registry w1 el = Some c0"
    using acq by (auto simp: getOrCreateAudioConnection_def Let_def split: option.splits if_splits)
  from sharedAnalyser_result [OF sh al] have "registry w2 el = Some cn"
    by simp
  then have reg: "registry w5 el = Some cn"
    by (simp add: w5 w4_def ensure_registry connectCustom_registry)
  have logged: "(''[useAudioVisualizer] Error connecting custom analyser:'', err)
      \<in> set (console w5)"
    if "connect_error h (tap_input cn) (node_id custom) = Some err" for err
  proof -
    from that have "(''[useAudioVisualizer] Error connecting custom analyser:'', err)
        \<in> set (console w4)"
      by (simp add: w4_def connectCustom_def connect_def consoleError_def)
    then show ?thesis
      using ensure_console [of w4 h cn] by (auto simp: w5)
  qed
  show "\<exists>cn custom.
            analyserRef (fst (snd ?r)) = Some custom
            \<and> registry (snd (snd ?r)) el = Some cn
            \<and> (\<forall>err. connect_error h (tap_input cn) (node_id custom) = Some err \<longrightarrow>
                  (''[useAudioVisualizer] Error connecting custom analyser:'', err)
                    \<in> set (console (snd (snd ?r))))"
    using reg logged by (intro exI [of _ cn] exI [of _ custom]) (simp add: r)
qed

theorem initialize_catches_witness:
  "fst (initialize_try quiet_platform 0 bad_options (initial_visualizer, empty_world))
     = Some IndexSizeError
   \<and> fst (initialize quiet_platform (Some 0) bad_options (initial_visualizer, empty_world)) = None
   \<and> \<not> isInitialized (fst (snd (initialize quiet_platform (Some 0) bad_options
         (initial_visualizer, empty_world))))
   \<and> console (snd (snd (initialize quiet_platform (Some 0) bad_options
         (initial_visualizer, empty_world))))
       = [(''Failed to initialize audio visualizer:'', IndexSizeError)]
   \<and> console (connectCustom tap_fault_platform
         \<lparr>audioContext = \<lparr>sampleRate = 48000, destination = 0\<rparr>, sourceNode = 1,
          filters = Some [], analyser = None, refCount = 1\<rparr>
         \<lparr>node_id = 3, fftSize = 128, smoothingTimeConstant = 0.8, minDecibels = - 90,
          maxDecibels = - 10\<rparr> empty_world)
       = [(''[useAudioVisualizer] Error connecting custom analyser:'', InvalidAccessError)]
   \<and> accepted default_options
   \<and> isInitialized (fst (snd (initialize tap_fault_platform (Some 0) default_options
         (initial_visualizer, empty_world))))"
proof -
  let ?t = "initialize_try quiet_platform 0 bad_options (initial_visualizer, empty_world)"
  let ?c = "\<lparr>audioContext = \<lparr>sampleRate = 48000, destination = 0\<rparr>, sourceNode = 1,
          filters = Some [], analyser = None, refCount = 1\<rparr>"
  let ?a = "\<lparr>node_id = 3, fftSize = 128, smoothingTimeConstant = 0.8, minDecibels = - 90,
          maxDecibels = - 10\<rparr>"
  have f: "fst ?t = Some IndexSizeError"
    by (simp add: eval_defs bad_options_def)
  have l: "console (snd (snd ?t)) = []"
    by (simp add: eval_defs bad_options_def)
  have t: "?t = (Some IndexSizeError, fst (snd ?t), snd (snd ?t))"
    using f by (simp add: prod_eq_iff)
  have g: "\<not> isInitialized initial_visualizer" "audioContextRef initial_visualizer = None"
    by (simp_all add: initial_visualizer_def)
  have k: "connect_error tap_fault_platform (tap_input ?c) (node_id ?a) = Some InvalidAccessError"
    by (simp add: tap_fault_platform_def quiet_platform_def tap_input_def)
  from g t initialize_catches [where h = quiet_platform and audioElement = "Some 0"
      and opts = bad_options and s = initial_visualizer and w = empty_world and el = 0
      and e = IndexSizeError and ?s1.0 = "fst (snd ?t)" and ?w1.0 = "snd (snd ?t)"]
  have r: "fst (initialize quiet_platform (Some 0) bad_options (initial_visualizer, empty_world))
        = None"
    "initialize quiet_platform (Some 0) bad_options (initial_visualizer, empty_world)
        = (None, fst (snd ?t),
           consoleError ''Failed to initialize audio visualizer:'' IndexSizeError (snd (snd ?t)))"
    "\<not> isInitialized (fst (snd ?t))"
    by blast+
  from k initialize_catches [where h = tap_fault_platform and w = empty_world
      and c = ?c and a = ?a and e' = InvalidAccessError]
  have "connectCustom tap_fault_platform ?c ?a empty_world
      = consoleError ''[useAudioVisualizer] Error connecting custom analyser:''
          InvalidAccessError empty_world"
    by blast
  then have "console (connectCustom tap_fault_platform ?c ?a empty_world)
      = [(''[useAudioVisualizer] Error connecting custom analyser:'', InvalidAccessError)]"
    by (simp add: consoleError_def empty_world_def)
  moreover have acc: "accepted default_options"
    by (simp add: accepted_def to_unsigned_long_def valid_fftSize_def fftSize_of_def
        smoothingTimeConstant_of_def minDecibels_of_def maxDecibels_of_def default_options_def)
  moreover have "fst (getOrCreateAudioConnection tap_fault_platform 0 empty_world) = Inr (Some ?c)"
    "ensure_error tap_fault_platform = None"
    by (simp_all add: getOrCreateAudioConnection_def tap_fault_platform_def quiet_platform_def
        empty_world_def Let_def)
  with g acc initialize_catches [where h = tap_fault_platform and audioElement = "Some 0"
      and opts = default_options and s = initial_visualizer and w = empty_world and el = 0
      and ?c0.0 = ?c]
  have "isInitialized (fst (snd (initialize tap_fault_platform (Some 0) default_options
         (initial_visualizer, empty_world))))"
    by blast
  ultimately show ?thesis
    using f r l by (simp add: consoleError_def)
qed

text \<open>
  C6. The hook's own analyser hangs off the last filter when the connection has filters
  and off the source node otherwise, and nothing leads out of it. The graph after
  initialize is the graph that completing the chain alone gives, plus that one edge into
  the analyser (when the platform accepts the hookup): the path to the destination is the
  same with and without the tap.
\<close>

theorem tap_in_parallel:
  assumes "allocated el w"
    and "initialize h (Some el) opts (s, w) = (x, s', w')"
    and "analyserRef s = None" and "analyserRef s' = Some custom"
  shows "\<exists>c. registry w' el = Some c
     \<and> edges w' =
         (if connect_error h (tap_input c) (node_id custom) = None
          then insert (tap_input c, node_id custom) (edges (snd (ensureConnectionChain h c w)))
          else edges (snd (ensureConnectionChain h c w)))
     \<and> tap_input c = (case filters c of Some (f # fs) \<Rightarrow> last (f # fs) | _ \<Rightarrow> sourceNode c)
     \<and> node_id custom \<notin> set (chain_nodes c)
     \<and> (\<forall>n. (node_id custom, n) \<notin> edges w')"
proof -
  from initialize_tap [OF assms(2-4)] obtain c0 w1 shared c w2 w5 where
    acq: "getOrCreateAudioConnection h el w = (Inr (Some c0), w1)"
    and sh: "sharedAnalyser el c0 w1 = (Inr (shared, c), w2)"
    and nid: "node_id custom = next_node w2"
    and w5: "w5 = snd (ensureConnectionChain h c
                    (connectCustom h c custom (w2\<lparr>next_node := Suc (next_node w2)\<rparr>)))"
    and ed: "edges w' = edges w5" and rg: "registry w' = registry w5"
    by blast
  from acquire_Some [OF acq assms(1)] have a:
    "registry w1 el = Some c0" "edges w1 = edges w" "next_node w \<le> next_node w1"
    "\<forall>n \<in> set (chain_nodes c0). n < next_node w1"
    by simp_all
  from sharedAnalyser_result [OF sh a(1)] have b:
    "registry w2 el = Some c" "chain_nodes c = chain_nodes c0" "tap_input c = tap_input c0"
    "edges w2 = edges w1" "next_node w1 \<le> next_node w2"
    by simp_all
  have reg: "registry w' el = Some c"
    by (simp add: rg w5 ensure_registry connectCustom_registry b(1))
  have below: "\<forall>n \<in> set (chain_nodes c). n < node_id custom"
    using a(4) b(2,5) nid by auto
  have fresh: "node_id custom \<notin> set (chain_nodes c)"
    using below by auto
  have old: "\<forall>e \<in> edges w. fst e < node_id custom"
    using assms(1) a(3) b(5) nid by (auto simp: allocated_def)
  have e5: "edges w' =
         (if connect_error h (tap_input c) (node_id custom) = None
          then insert (tap_input c, node_id custom) (edges (snd (ensureConnectionChain h c w)))
          else edges (snd (ensureConnectionChain h c w)))"
    by (auto simp: ed w5 ensure_edges connectCustom_edges a(2) b(4))
  have out: "\<forall>n. (node_id custom, n) \<notin> edges w'"
  proof
    fix n
    show "(node_id custom, n) \<notin> edges w'"
    proof
      assume "(node_id custom, n) \<in> edges w'"
      then consider "node_id custom = tap_input c"
        | "(node_id custom, n) \<in> edges w"
        | "(node_id custom, n) \<in> set (chain_links (chain_nodes c))"
        by (auto simp: e5 ensure_edges split: if_splits)
      then show False
      proof cases
        case 1
        then show False using tap_input_in_chain [of c] fresh by simp
      next
        case 2
        then show False using old by auto
      next
        case 3
        then show False using chain_links_nodes [OF 3] fresh by simp
      qed
    qed
  qed
  from reg e5 fresh out show ?thesis
    by (simp add: tap_input_def)
qed

theorem tap_in_parallel_witness:
  "allocated 0 filtered_world
   \<and> map_option node_id (analyserRef (fst (snd (initialize quiet_platform (Some 0)
        default_options (initial_visualizer, filtered_world))))) = Some 5
   \<and> edges (snd (snd (initialize quiet_platform (Some 0) default_options
        (initial_visualizer, filtered_world))))
     = {(3, 5), (1, 2), (2, 3), (3, 0)}
   \<and> (\<forall>n. (5, n) \<notin> edges (snd (snd (initialize quiet_platform (Some 0) default_options
        (initial_visualizer, filtered_world)))))"
proof -
  let ?r = "initialize quiet_platform (Some 0) default_options
      (initial_visualizer, filtered_world)"
  let ?a = "\<lparr>node_id = 5, fftSize = 128, smoothingTimeConstant = 0.8, minDecibels = - 90,
      maxDecibels = - 10\<rparr>"
  have al: "allocated 0 filtered_world"
    by (simp add: allocated_def filtered_world_def empty_world_def chain_nodes_def)
  have r: "?r = (fst ?r, fst (snd ?r), snd (snd ?r))"
    by simp
  have s0: "analyserRef initial_visualizer = None"
    by (simp add: initial_visualizer_def)
  have s1: "analyserRef (fst (snd ?r)) = Some ?a"
    by (simp add: eval_defs filtered_world_def)
  have e: "edges (snd (snd ?r)) = {(3, 5), (1, 2), (2, 3), (3, 0)}"
    by (auto simp: eval_defs filtered_world_def)
  from tap_in_parallel [OF al r s0 s1]
  have "\<forall>n. (node_id ?a, n) \<notin> edges (snd (snd ?r))"
    by blast
  with al s1 e show ?thesis
    by simp
qed

text \<open>
  C7. getFrequencyData and getTimeDomainData return the bytes of the analyser held in
  analyserRef, the hook's own, bin by bin, and read nothing else: on two platforms that
  agree on the bytes of that node, and differ in any way on every other node, they return
  the same arrays, in every state of the hook. The analyser that initialize stores in
  analyserRef is a node of its own, never the connection's shared analyser.
\<close>

theorem sampling_reads_own_analyser:
  "(analyserRef s = Some a \<longrightarrow>
      getFrequencyData h1 s = map (byteFrequency h1 (node_id a)) [0..<frequencyBinCount a]
      \<and> getTimeDomainData h1 s = map (byteTimeDomain h1 (node_id a)) [0..<frequencyBinCount a])
   \<and> ((\<forall>a. analyserRef s = Some a \<longrightarrow>
        byteFrequency h1 (node_id a) = byteFrequency h2 (node_id a)
        \<and> byteTimeDomain h1 (node_id a) = byteTimeDomain h2 (node_id a)) \<longrightarrow>
      getFrequencyData h1 s = getFrequencyData h2 s
      \<and> getTimeDomainData h1 s = getTimeDomainData h2 s)
   \<and> (allocated el w \<and> initialize h (Some el) opts (s0, w) = (x, s, w')
        \<and> analyserRef s0 = None \<and> analyserRef s = Some custom
        \<and> registry w' el = Some c \<and> analyser c = Some shared \<longrightarrow>
      node_id shared \<noteq> node_id custom)"
proof (intro conjI impI)
  assume "analyserRef s = Some a"
  then show "getFrequencyData h1 s = map (byteFrequency h1 (node_id a)) [0..<frequencyBinCount a]"
    "getTimeDomainData h1 s = map (byteTimeDomain h1 (node_id a)) [0..<frequencyBinCount a]"
    by (simp_all add: sampled_spectrum sampled_waveform)
next
  assume "\<forall>a. analyserRef s = Some a \<longrightarrow>
        byteFrequency h1 (node_id a) = byteFrequency h2 (node_id a)
        \<and> byteTimeDomain h1 (node_id a) = byteTimeDomain h2 (node_id a)"
  then show "getFrequencyData h1 s = getFrequencyData h2 s"
    "getTimeDomainData h1 s = getTimeDomainData h2 s"
    by (auto simp: getFrequencyData_def getTimeDomainData_def getByteFrequencyData_def
        getByteTimeDomainData_def Let_def split: option.splits)
next
  assume a: "allocated el w \<and> initialize h (Some el) opts (s0, w) = (x, s, w')
        \<and> analyserRef s0 = None \<and> analyserRef s = Some custom
        \<and> registry w' el = Some c \<and> analyser c = Some shared"
  then have al: "allocated el w"
    by simp
  from a initialize_tap [of h el opts s0 w x s w' custom]
  obtain c0 w1 sh c1 w2 w5 where
    acq: "getOrCreateAudioConnection h el w = (Inr (Some c0), w1)"
    and shr: "sharedAnalyser el c0 w1 = (Inr (sh, c1), w2)"
    and nid: "node_id custom = next_node w2"
    and w5: "w5 = snd (ensureConnectionChain h c1
                    (connectCustom h c1 custom (w2\<lparr>next_node := Suc (next_node w2)\<rparr>)))"
    and rg: "registry w' = registry w5"
    by blast
  from acquire_Some [OF acq al] have r1: "registry w1 el = Some c0"
    by simp
  from sharedAnalyser_result [OF shr r1] have r2: "registry w2 el = Some c1"
    by simp
  have "registry w' el = Some c1"
    by (simp add: rg w5 ensure_registry connectCustom_registry r2)
  with a have c: "c1 = c"
    by simp
  from al acquire_analyser [OF acq]
  have "\<And>a. analyser c0 = Some a \<Longrightarrow> node_id a < next_node w1"
    by blast
  from sharedAnalyser_node [OF shr this] have "analyser c1 = Some sh" "node_id sh < next_node w2"
    by simp_all
  with a c nid show "node_id shared \<noteq> node_id custom"
    by auto
qed

theorem sampling_reads_own_analyser_witness:
  "map_option node_id (case registry (snd initialized_state) 0 of
                         None \<Rightarrow> None | Some c \<Rightarrow> analyser c) = Some 2
   \<and> map_option node_id (analyserRef (fst initialized_state)) = Some 3
   \<and> byteFrequency probe_platform 2 0 = 255 \<and> byteFrequency probe_platform 3 0 = 7
   \<and> getFrequencyData probe_platform (fst initialized_state) = replicate 64 7
   \<and> getTimeDomainData probe_platform (fst initialized_state) = replicate 64 9
   \<and> byteFrequency quiet_platform 2 0 \<noteq> byteFrequency shared_noise_platform 2 0
   \<and> getFrequencyData quiet_platform (fst initialized_state)
       = getFrequencyData shared_noise_platform (fst initialized_state)
   \<and> getTimeDomainData quiet_platform (fst initialized_state)
       = getTimeDomainData shared_noise_platform (fst initialized_state)"
proof -
  let ?a = "\<lparr>node_id = 3, fftSize = 128, smoothingTimeConstant = 0.8,
             minDecibels = - 90, maxDecibels = - 10\<rparr>"
  have n: "map_option node_id (case registry (snd initialized_state) 0 of
                         None \<Rightarrow> None | Some c \<Rightarrow> analyser c) = Some 2"
    by (simp add: initialized_state_def eval_defs)
  have d: "byteFrequency quiet_platform 2 0 \<noteq> byteFrequency shared_noise_platform 2 0"
    "byteFrequency probe_platform 2 0 = 255" "byteFrequency probe_platform 3 0 = 7"
    by (simp_all add: shared_noise_platform_def probe_platform_def quiet_platform_def)
  from initialized_state_facts(1)
    sampling_reads_own_analyser [where s = "fst initialized_state" and a = ?a
      and ?h1.0 = probe_platform]
  have "getFrequencyData probe_platform (fst initialized_state)
        = map (byteFrequency probe_platform (node_id ?a)) [0..<frequencyBinCount ?a]
      \<and> getTimeDomainData probe_platform (fst initialized_state)
        = map (byteTimeDomain probe_platform (node_id ?a)) [0..<frequencyBinCount ?a]"
    by blast
  then have p: "getFrequencyData probe_platform (fst initialized_state) = replicate 64 7"
    "getTimeDomainData probe_platform (fst initialized_state) = replicate 64 9"
    by (simp_all add: frequencyBinCount_def probe_platform_def quiet_platform_def
        map_replicate_const)
  have "\<forall>a. analyserRef (fst initialized_state) = Some a \<longrightarrow>
             byteFrequency quiet_platform (node_id a)
               = byteFrequency shared_noise_platform (node_id a)
             \<and> byteTimeDomain quiet_platform (node_id a)
                 = byteTimeDomain shared_noise_platform (node_id a)"
    by (simp add: initialized_state_facts shared_noise_platform_def quiet_platform_def)
  with sampling_reads_own_analyser [where s = "fst initialized_state"
      and ?h1.0 = quiet_platform and ?h2.0 = shared_noise_platform]
  have "getFrequencyData quiet_platform (fst initialized_state)
       = getFrequencyData shared_noise_platform (fst initialized_state)
     \<and> getTimeDomainData quiet_platform (fst initialized_state)
       = getTimeDomainData shared_noise_platform (fst initialized_state)"
    by blast
  moreover from n obtain c shared where
    c: "registry (snd initialized_state) 0 = Some c" "analyser c = Some shared"
    by (auto split: option.splits)
  have "allocated 0 empty_world" "analyserRef initial_visualizer = None"
    by (simp_all add: allocated_def empty_world_def initial_visualizer_def)
  with c initialized_state_eq initialized_state_facts(1)
    sampling_reads_own_analyser [where el = 0 and w = empty_world and h = quiet_platform
      and opts = default_options and ?s0.0 = initial_visualizer and x = None
      and s = "fst initialized_state" and w' = "snd initialized_state" and c = c
      and shared = shared and custom = ?a]
  have "node_id shared \<noteq> 3"
    by simp
  ultimately show ?thesis
    using n d p initialized_state_facts(1) by simp
qed

text \<open>
  C8. initialize is a no-op when the component is already initialized or the audio element
  is absent: no exception, the references and the component state are unchanged, and the
  world (registry, graph, nodes, console) is unchanged, so no connection was acquired and
  no analyser created.
\<close>

theorem initialize_noop:
  "isInitialized s \<or> audioElement = None \<Longrightarrow>
     initialize h audioElement opts (s, w) = (None, s, w)"
  by (auto simp: initialize_def split: option.splits)

theorem initialize_noop_witness:
  "initialize quiet_platform None default_options (initial_visualizer, empty_world)
     = (None, initial_visualizer, empty_world)
   \<and> initialize quiet_platform (Some 0) default_options initialized_state
     = (None, initialized_state)"
  using initialize_noop [of "initial_visualizer" None quiet_platform default_options empty_world]
    initialize_noop [of "fst initialized_state" "Some 0" quiet_platform default_options
      "snd initialized_state"]
    initialized_state_facts(2)
  by simp




text \<open>
  C10. While audioContextRef is empty getSampleRate returns 44100, and while analyserRef is
  empty getFFTSize returns the configured fftSize (128 when the option is omitted). That
  is the case for a freshly mounted hook and after the teardown has cleared the
  references. Neither getter has a raising branch.
\<close>

theorem getters_fallback:
  "(audioContextRef s = None \<longrightarrow> getSampleRate s = 44100)
   \<and> (analyserRef s = None \<longrightarrow> getFFTSize opts s = fftSize_of opts)
   \<and> getSampleRate initial_visualizer = 44100
   \<and> getFFTSize opts initial_visualizer = fftSize_of opts
   \<and> getFFTSize default_options initial_visualizer = 128
   \<and> getSampleRate (fst (teardown audioElement (s, w))) = 44100
   \<and> getFFTSize opts (fst (teardown audioElement (s, w))) = fftSize_of opts"
  by (auto simp: getSampleRate_def getFFTSize_def initial_visualizer_def teardown_def
      stopVisualization_def fftSize_of_def default_options_def Let_def split: option.splits)

theorem getters_fallback_witness:
  "audioContextRef initial_visualizer = None \<and> analyserRef initial_visualizer = None
   \<and> getSampleRate initial_visualizer = 44100
   \<and> getFFTSize bad_options initial_visualizer = 100
   \<and> getSampleRate (fst initialized_state) = 48000
   \<and> getSampleRate (fst (teardown (Some 0) initialized_state)) = 44100
   \<and> getFFTSize default_options (fst (teardown (Some 0) initialized_state)) = 128"
proof -
  have a: "audioContextRef initial_visualizer = None" "analyserRef initial_visualizer = None"
    by (simp_all add: initial_visualizer_def)
  have b: "getSampleRate (fst initialized_state) = 48000"
    by (simp add: initialized_state_def getSampleRate_def eval_defs)
  have c: "fftSize_of bad_options = 100" "fftSize_of default_options = 128"
    by (simp_all add: fftSize_of_def bad_options_def default_options_def)
  from a getters_fallback [of initial_visualizer bad_options]
  have "getSampleRate initial_visualizer = 44100
      \<and> getFFTSize bad_options initial_visualizer = fftSize_of bad_options"
    by blast
  moreover from getters_fallback [of "fst initialized_state" default_options "Some 0"
      "snd initialized_state"]
  have "getSampleRate (fst (teardown (Some 0) initialized_state)) = 44100
      \<and> getFFTSize default_options (fst (teardown (Some 0) initialized_state))
          = fftSize_of default_options"
    by simp
  ultimately show ?thesis
    using a b c by simp
qed

end
